theory Spec2Isabelle
  imports Complex_Main "HOL-Library.Word"
begin

section \<open>Exceptions as values\<close>

text \<open>
  An exception is a value of this type: those that the modelled functions of
  \<^verbatim>\<open>categorization.py\<close> raise themselves, and those that numpy and scikit-learn raise
  on their paths. A function that can raise returns \<open>error + 'a\<close> with \<open>Inl\<close> for the
  exception. The string is the message of the exception; a message that formats a list
  is cut before the list.
\<close>

datatype error =
    ValueError string
  | IndexError
  | ZeroDivisionError
  | NotFittedError
  | WrongParameter string
  | OptionalDependencyMissing string
  | NotImplementedFD string

section \<open>numpy operations used by the module\<close>

text \<open>
  Arrays are lists. Scores and distances are floating point numbers in the source; they
  are modelled by \<^typ>\<open>real\<close>, so rounding is not part of the model. Indices are
  numpy integers, modelled by \<^typ>\<open>int\<close>.
\<close>

text \<open>\<^verbatim>\<open>a[mask]\<close> for a boolean array \<^verbatim>\<open>mask\<close> of the length of \<^verbatim>\<open>a\<close>.\<close>

definition bool_index :: "'a list \<Rightarrow> bool list \<Rightarrow> 'a list" where
  "bool_index a msk = map fst (filter snd (zip a msk))"

text \<open>\<^verbatim>\<open>a[i]\<close> for one integer: a negative index counts from the end, an index out of
  range raises \<^verbatim>\<open>IndexError\<close>.\<close>

definition np_get :: "'a list \<Rightarrow> int \<Rightarrow> error + 'a" where
  "np_get a i =
     (if 0 \<le> i \<and> i < int (length a) then Inr (a ! nat i)
      else if - int (length a) \<le> i \<and> i < 0 then Inr (a ! nat (int (length a) + i))
      else Inl IndexError)"

text \<open>\<^verbatim>\<open>a[idx]\<close> for an integer array \<^verbatim>\<open>idx\<close>.\<close>

fun np_take :: "'a list \<Rightarrow> int list \<Rightarrow> error + 'a list" where
  "np_take a [] = Inr []"
| "np_take a (i # idx) =
     (case np_get a i of
        Inl e \<Rightarrow> Inl e
      | Inr v \<Rightarrow> (case np_take a idx of Inl e \<Rightarrow> Inl e | Inr vs \<Rightarrow> Inr (v # vs)))"

text \<open>\<^verbatim>\<open>a[lo:hi]\<close> on the rows of an array, with Python's clipping of the bounds.\<close>

definition py_slice :: "'a list \<Rightarrow> int \<Rightarrow> int \<Rightarrow> 'a list" where
  "py_slice a lo hi =
     (let n = int (length a);
          lo' = (if lo < 0 then max (lo + n) 0 else min lo n);
          hi' = (if hi < 0 then max (hi + n) 0 else min hi n)
      in take (nat (hi' - lo')) (drop (nat lo') a))"

text \<open>\<^verbatim>\<open>range(n)\<close>: empty when \<^verbatim>\<open>n\<close> is not positive.\<close>

definition py_range :: "int \<Rightarrow> int list" where
  "py_range n = map int [0..<nat n]"

text \<open>\<^verbatim>\<open>np.concatenate(arrs, axis=0)\<close>: raises \<^verbatim>\<open>ValueError\<close> on an empty list of arrays.\<close>

definition np_concatenate :: "'a list list \<Rightarrow> error + 'a list" where
  "np_concatenate arrs =
     (if arrs = [] then Inl (ValueError ''need at least one array to concatenate'')
      else Inr (concat arrs))"

section \<open>Index-remap utilities\<close>












text \<open>\<^verbatim>\<open>_unzip_relevant\<close> (lines 31--44) on ids that are integers already, where the
  cast of line 43 changes nothing: \<^verbatim>\<open>mask = y > 0.5\<close>, then \<^verbatim>\<open>idx_id[mask]\<close> and
  \<^verbatim>\<open>idx_id[~mask]\<close>. Indexing with a mask of another length raises \<^verbatim>\<open>IndexError\<close>.\<close>

definition unzip_relevant :: "int list \<Rightarrow> real list \<Rightarrow> error + (int list \<times> int list)" where
  "unzip_relevant idx_id y =
     (let msk = map (\<lambda>v. v > 0.5) y in
      if length msk \<noteq> length idx_id then Inl IndexError
      else Inr (bool_index idx_id msk, bool_index idx_id (map Not msk)))"


section \<open>The collaborators from scikit-learn\<close>

text \<open>
  scikit-learn is not part of the repository, so what the module calls is a parameter:
  \<^item> \<open>check_array\<close> is \<^verbatim>\<open>check_array(X, accept_sparse='csr')\<close>: the validated matrix, or
    the exception it raises;
  \<^item> \<open>nn_kneighbors T\<close> is the method \<^verbatim>\<open>kneighbors\<close> of a \<^verbatim>\<open>NearestNeighbors\<close> object
    with \<^verbatim>\<open>n_neighbors=1\<close> that was fitted on the rows \<open>T\<close>: for a batch of query rows,
    the only column (\<^verbatim>\<open>[:,0]\<close>) of its distance array and of its index array, or the
    exception it raises;
  \<^item> \<open>metric_distance m x c\<close> is the distance of the rows \<open>x\<close> and \<open>c\<close> under the metric
    named \<open>m\<close>, the entry that \<^verbatim>\<open>pairwise_distances(X, Y, metric=m)\<close> holds for a row
    \<open>x\<close> of \<^verbatim>\<open>X\<close> and a row \<open>c\<close> of \<^verbatim>\<open>Y\<close>.
  A row of a matrix is a value of the type \<open>'r\<close>.
\<close>

type_synonym 'r knn_query = "'r list \<Rightarrow> error + (real list \<times> int list)"

record 'r sklearn =
  check_array :: "'r list \<Rightarrow> error + 'r list"
  nn_kneighbors :: "'r list \<Rightarrow> 'r knn_query"
  metric_distance :: "string \<Rightarrow> 'r \<Rightarrow> 'r \<Rightarrow> real"

text \<open>A \<^verbatim>\<open>NearestNeighbors\<close> object is \<open>None\<close> while \<^verbatim>\<open>_fit_method is None\<close> (never
  fitted) and \<open>Some T\<close> once fitted on the rows \<open>T\<close>. Querying an object that was never
  fitted raises \<^verbatim>\<open>NotFittedError\<close>.\<close>

definition mod_kneighbors :: "'r sklearn \<Rightarrow> 'r list option \<Rightarrow> 'r knn_query" where
  "mod_kneighbors sk m X =
     (case m of None \<Rightarrow> Inl NotFittedError | Some T \<Rightarrow> nn_kneighbors sk T X)"

section \<open>Chunked queries\<close>

text \<open>The loop of \<^verbatim>\<open>_chunk_kneighbors\<close> (lines 134--139) over the values of \<^verbatim>\<open>k\<close>, with
  the two accumulators \<^verbatim>\<open>dist_arr\<close> and \<^verbatim>\<open>ind_arr\<close>. An exception of \<^verbatim>\<open>func\<close> ends it.\<close>

fun chunk_loop ::
  "'r knn_query \<Rightarrow> 'r list \<Rightarrow> int \<Rightarrow> int list \<Rightarrow> real list list \<times> int list list
   \<Rightarrow> error + (real list list \<times> int list list)" where
  "chunk_loop func X batch_size [] (dist_arr, ind_arr) = Inr (dist_arr, ind_arr)"
| "chunk_loop func X batch_size (k # ks) (dist_arr, ind_arr) =
     (let n_samples = int (length X);
          X_sl = py_slice X (k * batch_size) (min ((k + 1) * batch_size) n_samples)
      in case func X_sl of
           Inl e \<Rightarrow> Inl e
         | Inr (dist_k, ind_k) \<Rightarrow>
             chunk_loop func X batch_size ks (dist_arr @ [dist_k], ind_arr @ [ind_k]))"

text \<open>\<^verbatim>\<open>_chunk_kneighbors\<close> (lines 112--141). \<^verbatim>\<open>//\<close> and \<^verbatim>\<open>%\<close> are Python's floor
  division and modulus, which are \<open>div\<close> and \<open>mod\<close> on \<^typ>\<open>int\<close>; both raise
  \<^verbatim>\<open>ZeroDivisionError\<close> for a zero batch size.\<close>

definition chunk_kneighbors :: "'r knn_query \<Rightarrow> 'r list \<Rightarrow> int \<Rightarrow> error + (real list \<times> int list)" where
  "chunk_kneighbors func X batch_size =
     (let n_samples = int (length X) in
      if batch_size = 0 then Inl ZeroDivisionError
      else
        case chunk_loop func X batch_size
               (py_range (n_samples div batch_size + (if n_samples mod batch_size \<noteq> 0 then 1 else 0)))
               ([], []) of
          Inl e \<Rightarrow> Inl e
        | Inr (dist_arr, ind_arr) \<Rightarrow>
            (case np_concatenate dist_arr of
               Inl e \<Rightarrow> Inl e
             | Inr dist_all \<Rightarrow>
                 (case np_concatenate ind_arr of
                    Inl e \<Rightarrow> Inl e
                  | Inr ind_all \<Rightarrow> Inr (dist_all, ind_all))))"

section \<open>The nearest neighbor ranker\<close>

text \<open>The state of a \<^verbatim>\<open>NearestNeighborRanker\<close>: the two \<^verbatim>\<open>NearestNeighbors\<close> objects
  \<^verbatim>\<open>_mod_p\<close> and \<^verbatim>\<open>_mod_n\<close>, the two index arrays \<^verbatim>\<open>_index_p\<close> and \<^verbatim>\<open>_index_n\<close>,
  and \<^verbatim>\<open>ranking_\<close>.\<close>

record 'r NearestNeighborRanker =
  mod_p :: "'r list option"
  mod_n :: "'r list option"
  index_p :: "int list"
  index_n :: "int list"
  ranking :: string

text \<open>\<^verbatim>\<open>__init__\<close> (lines 186--205): two objects that are not fitted, and the check of
  \<^verbatim>\<open>ranking\<close>. The index arrays do not exist before \<^verbatim>\<open>fit\<close>; no path reads them before
  \<^verbatim>\<open>_mod_p\<close> is fitted.\<close>

definition init :: "string \<Rightarrow> error + 'r NearestNeighborRanker" where
  "init ranking_arg =
     (if ranking_arg \<notin> set [''supervised'', ''unsupervised''] then Inl (ValueError [])
      else Inr \<lparr>mod_p = None, mod_n = None, index_p = [], index_n = [], ranking = ranking_arg\<rparr>)"

text \<open>\<^verbatim>\<open>_ranking_score\<close> (lines 207--232). \<^verbatim>\<open>np.where\<close> works element by element; the
  two arrays have one entry for each query row.\<close>

definition ranking_score :: "real list \<Rightarrow> real list option \<Rightarrow> real list" where
  "ranking_score d_p d_n =
     (let S_p = map (\<lambda>d. 1 - d) d_p in
      case d_n of
        Some d_n' \<Rightarrow>
          (let S_n = map (\<lambda>d. 1 - d) d_n' in
           map (\<lambda>(s_p, s_n). (if s_p > s_n then s_p + 1 else - 1 - s_n) / 2) (zip S_p S_n))
      | None \<Rightarrow> map (\<lambda>s_p. (s_p + 1) / 2) S_p)"

text \<open>\<^verbatim>\<open>fit\<close> (lines 234--256). The method changes the object and may raise after it has
  changed it, so the model returns the exception, if any, together with the state the
  object is left in.\<close>

definition fit ::
  "'r sklearn \<Rightarrow> 'r NearestNeighborRanker \<Rightarrow> 'r list \<Rightarrow> real list
   \<Rightarrow> error option \<times> 'r NearestNeighborRanker" where
  "fit sk self X y =
     (case check_array sk X of
        Inl e \<Rightarrow> (Some e, self)
      | Inr X' \<Rightarrow>
          (case unzip_relevant (py_range (int (length X'))) y of
             Inl e \<Rightarrow> (Some e, self)
           | Inr (ids_p, ids_n) \<Rightarrow>
               (let self1 = self\<lparr>index_p := ids_p, index_n := ids_n\<rparr> in
                if length ids_p > 0 then
                  (case np_take X' ids_p of
                     Inl e \<Rightarrow> (Some e, self1)
                   | Inr X_p \<Rightarrow>
                       (let self2 = self1\<lparr>mod_p := Some X_p\<rparr> in
                        if length ids_n > 0 then
                          (case np_take X' ids_n of
                             Inl e \<Rightarrow> (Some e, self2)
                           | Inr X_n \<Rightarrow> (None, self2\<lparr>mod_n := Some X_n\<rparr>))
                        else (None, self2)))
                else
                  (Some (ValueError ''Training sets with no positive labels are not supported!''),
                   self1))))"

text \<open>The dictionary \<^verbatim>\<open>md\<close> of \<^verbatim>\<open>kneighbors\<close>: the keys \<^verbatim>\<open>ind_n\<close> and \<^verbatim>\<open>dist_n\<close> are
  present only when the negative index was queried.\<close>

record md =
  dist_p :: "real list"
  ind_p :: "int list"
  ind_n :: "int list option"
  dist_n :: "real list option"

text \<open>\<^verbatim>\<open>np.where(D_p <= D_n, ind_p, ind_n)\<close>, element by element.\<close>

definition where_le :: "real list \<Rightarrow> real list \<Rightarrow> int list \<Rightarrow> int list \<Rightarrow> int list" where
  "where_le D_p D_n i_p i_n =
     map (\<lambda>((d_p, d_n), (a, b)). if d_p \<le> d_n then a else b) (zip (zip D_p D_n) (zip i_p i_n))"

text \<open>\<^verbatim>\<open>kneighbors\<close> (lines 258--319).\<close>

definition kneighbors ::
  "'r sklearn \<Rightarrow> 'r NearestNeighborRanker \<Rightarrow> 'r list \<Rightarrow> int
   \<Rightarrow> error + (real list \<times> int list \<times> md)" where
  "kneighbors sk self X batch_size =
     (case check_array sk X of
        Inl e \<Rightarrow> Inl e
      | Inr X' \<Rightarrow>
     (case chunk_kneighbors (mod_kneighbors sk (mod_p self)) X' batch_size of
        Inl e \<Rightarrow> Inl e
      | Inr (D_p_raw, idx_p_loc) \<Rightarrow>
     (let D_p = map (\<lambda>d. d / 2) D_p_raw in
      case np_take (index_p self) idx_p_loc of
        Inl e \<Rightarrow> Inl e
      | Inr i_p \<Rightarrow>
     (let md0 = \<lparr>dist_p = D_p, ind_p = i_p, ind_n = None, dist_n = None\<rparr> in
      case
        (if mod_n self \<noteq> None then
           (case chunk_kneighbors (mod_kneighbors sk (mod_n self)) X' batch_size of
              Inl e \<Rightarrow> Inl e
            | Inr (D_n_raw, idx_n_loc) \<Rightarrow>
                (let D_n = map (\<lambda>d. d / 2) D_n_raw in
                 case np_take (index_n self) idx_n_loc of
                   Inl e \<Rightarrow> Inl e
                 | Inr i_n \<Rightarrow>
                     (let md1 = md0\<lparr>ind_n := Some i_n, dist_n := Some D_n\<rparr> in
                      if ranking self = ''supervised''
                      then Inr (Some D_n, where_le D_p D_n i_p i_n, md1)
                      else Inr (Some D_n, i_p, md1))))
         else Inr (None, i_p, md0)) of
        Inl e \<Rightarrow> Inl e
      | Inr (D_n, ind, md') \<Rightarrow>
          (if ranking self = ''supervised'' then Inr (ranking_score D_p D_n, ind, md')
           else if ranking self = ''unsupervised'' then Inr (ranking_score D_p None, ind, md')
           else Inl (ValueError []))))))"

section \<open>Queries that answer each row on its own\<close>

text \<open>The 1-nearest-neighbor query of scikit-learn answers every row of a batch on its
  own: the batch result is the list of the answers to its rows, and the exception of the
  first row that has one. \<open>batch_of q\<close> is the batch query made of the row query \<open>q\<close>, and
  \<open>row_wise sk q\<close> says that the queries of \<open>sk\<close> are of this kind on every batch that has
  a row.\<close>

fun batch_of :: "('r \<Rightarrow> error + (real \<times> int)) \<Rightarrow> 'r knn_query" where
  "batch_of q [] = Inr ([], [])"
| "batch_of q (x # xs) =
     (case q x of
        Inl e \<Rightarrow> Inl e
      | Inr (d, i) \<Rightarrow>
          (case batch_of q xs of
             Inl e \<Rightarrow> Inl e
           | Inr (ds, js) \<Rightarrow> Inr (d # ds, i # js)))"

definition row_wise :: "'r sklearn \<Rightarrow> ('r list \<Rightarrow> 'r \<Rightarrow> error + (real \<times> int)) \<Rightarrow> bool" where
  "row_wise sk q = (\<forall>T Xb. Xb \<noteq> [] \<longrightarrow> nn_kneighbors sk T Xb = batch_of (q T) Xb)"

text \<open>The query of \<^verbatim>\<open>kneighbors\<close> as the specification words it: the 1-nearest-neighbor
  query run on the whole matrix in one call, where \<^verbatim>\<open>kneighbors\<close> runs it batch by
  batch. Everything else is as in \<^verbatim>\<open>kneighbors\<close>.\<close>

definition kneighbors_one_call ::
  "'r sklearn \<Rightarrow> 'r NearestNeighborRanker \<Rightarrow> 'r list
   \<Rightarrow> error + (real list \<times> int list \<times> md)" where
  "kneighbors_one_call sk self X =
     (case check_array sk X of
        Inl e \<Rightarrow> Inl e
      | Inr X' \<Rightarrow>
     (case mod_kneighbors sk (mod_p self) X' of
        Inl e \<Rightarrow> Inl e
      | Inr (D_p_raw, idx_p_loc) \<Rightarrow>
     (let D_p = map (\<lambda>d. d / 2) D_p_raw in
      case np_take (index_p self) idx_p_loc of
        Inl e \<Rightarrow> Inl e
      | Inr i_p \<Rightarrow>
     (let md0 = \<lparr>dist_p = D_p, ind_p = i_p, ind_n = None, dist_n = None\<rparr> in
      case
        (if mod_n self \<noteq> None then
           (case mod_kneighbors sk (mod_n self) X' of
              Inl e \<Rightarrow> Inl e
            | Inr (D_n_raw, idx_n_loc) \<Rightarrow>
                (let D_n = map (\<lambda>d. d / 2) D_n_raw in
                 case np_take (index_n self) idx_n_loc of
                   Inl e \<Rightarrow> Inl e
                 | Inr i_n \<Rightarrow>
                     (let md1 = md0\<lparr>ind_n := Some i_n, dist_n := Some D_n\<rparr> in
                      if ranking self = ''supervised''
                      then Inr (Some D_n, where_le D_p D_n i_p i_n, md1)
                      else Inr (Some D_n, i_p, md1))))
         else Inr (None, i_p, md0)) of
        Inl e \<Rightarrow> Inl e
      | Inr (D_n, ind, md') \<Rightarrow>
          (if ranking self = ''supervised'' then Inr (ranking_score D_p D_n, ind, md')
           else if ranking self = ''unsupervised'' then Inr (ranking_score D_p None, ind, md')
           else Inl (ValueError []))))))"

section \<open>The nearest centroid ranker\<close>

text \<open>A \<^verbatim>\<open>NearestCentroidRanker\<close> is scikit-learn's \<^verbatim>\<open>NearestCentroid\<close>; the method added
  reads the attributes \<^verbatim>\<open>centroids_\<close>, which exists once \<^verbatim>\<open>fit\<close> has computed the
  centroids, and \<^verbatim>\<open>metric\<close>.\<close>

record 'r NearestCentroidRanker =
  centroids :: "'r list option"
  metric :: string

text \<open>\<^verbatim>\<open>pairwise_distances(X, Y, metric)\<close>: one row for each row of \<^verbatim>\<open>X\<close>, one column
  for each row of \<^verbatim>\<open>Y\<close>.\<close>

definition pairwise_distances :: "'r sklearn \<Rightarrow> 'r list \<Rightarrow> 'r list \<Rightarrow> string \<Rightarrow> real list list" where
  "pairwise_distances sk X Y m = map (\<lambda>x. map (metric_distance sk m x) Y) X"

text \<open>\<^verbatim>\<open>D.min(axis=1)\<close> for a matrix with \<open>n_cols\<close> columns: the minimum of every row;
  numpy raises \<^verbatim>\<open>ValueError\<close> when there is no column to take a minimum over.\<close>

definition np_min_axis1 :: "nat \<Rightarrow> real list list \<Rightarrow> error + real list" where
  "np_min_axis1 n_cols D =
     (if n_cols = 0
      then Inl (ValueError ''zero-size array to reduction operation minimum which has no identity'')
      else Inr (map (\<lambda>row. Min (set row)) D))"

text \<open>\<^verbatim>\<open>decision_function\<close> (lines 92--110).\<close>

definition decision_function ::
  "'r sklearn \<Rightarrow> 'r NearestCentroidRanker \<Rightarrow> 'r list \<Rightarrow> error + real list" where
  "decision_function sk self X =
     (case centroids self of
        None \<Rightarrow> Inl NotFittedError
      | Some C \<Rightarrow>
          (case check_array sk X of
             Inl e \<Rightarrow> Inl e
           | Inr X' \<Rightarrow> np_min_axis1 (length C) (pairwise_distances sk X' C (metric self))))"

section \<open>Training through the wrapper\<close>

text \<open>The estimators that \<^verbatim>\<open>_build_estimator\<close> can build.\<close>

datatype estimator =
    LinearSVC
  | LinearSVC_cv
  | LogisticRegression
  | LogisticRegression_cv
  | NearestCentroidRanker_model
  | NearestNeighborRanker_model
  | XGBoost
  | XGBoost_cv
  | MLPClassifier

text \<open>What \<^verbatim>\<open>train\<close> depends on outside the module: whether the optional packages
  import, the model id that \<^verbatim>\<open>setup_model\<close> returns, and the exception, if any, of the
  estimator's own \<^verbatim>\<open>fit\<close> on the training rows.\<close>

record train_env =
  have_freediscovery_extra :: bool
  have_xgboost :: bool
  new_mid :: string
  estimator_fit :: "estimator \<Rightarrow> error option"

text \<open>What \<^verbatim>\<open>train\<close> does to the world, in the order it does it: \<^verbatim>\<open>setup_model\<close>
  creates the directory of the model, \<^verbatim>\<open>cmod.fit\<close> fits, the two \<^verbatim>\<open>joblib.dump\<close>
  write the model and its parameters.\<close>

datatype effect = SetupModel | FitModel estimator | DumpModel estimator | DumpPars string

record wrapper =
  mid :: "string option"
  cmod :: "estimator option"

text \<open>\<^verbatim>\<open>cv\<close> is \<^verbatim>\<open>None\<close> or a string.\<close>

type_synonym cv = "string option"

text \<open>\<^verbatim>\<open>_build_estimator\<close> (lines 357--416). \<^verbatim>\<open>cv_obj\<close> is only handed on to the
  constructors, so it is not modelled.\<close>

definition build_estimator :: "train_env \<Rightarrow> string \<Rightarrow> cv \<Rightarrow> error + estimator" where
  "build_estimator env method cv =
     (if method = ''LinearSVC'' then
        (if cv = None then Inr LinearSVC
         else if \<not> have_freediscovery_extra env
           then Inl (OptionalDependencyMissing ''freediscovery_extra'')
         else Inr LinearSVC_cv)
      else if method = ''LogisticRegression'' then
        (if cv = None then Inr LogisticRegression
         else if \<not> have_freediscovery_extra env
           then Inl (OptionalDependencyMissing ''freediscovery_extra'')
         else Inr LogisticRegression_cv)
      else if method = ''NearestCentroid'' then Inr NearestCentroidRanker_model
      else if method = ''NearestNeighbor'' then Inr NearestNeighborRanker_model
      else if method = ''xgboost'' then
        (if \<not> have_xgboost env then Inl (OptionalDependencyMissing ''xgboost'')
         else if \<not> have_freediscovery_extra env
           then Inl (OptionalDependencyMissing ''freediscovery_extra'')
         else if cv = None then Inr XGBoost
         else Inr XGBoost_cv)
      else if method = ''MLPClassifier'' then
        (if cv \<noteq> None then Inl (NotImplementedFD ''CV not supported with MLPClassifier'')
         else Inr MLPClassifier)
      else Inl (WrongParameter (''Method '' @ method @ '' not implemented!'')))"

text \<open>\<^verbatim>\<open>train\<close> (lines 418--503): the exception or the estimator returned, the state of
  the wrapper afterwards, and the effects carried out. The branch for
  \<^verbatim>\<open>'ensemble-stacking'\<close> after the checks cannot be reached, since the first check
  rejects that method; the training rows and labels are only handed on to \<^verbatim>\<open>cmod.fit\<close>
  and to the dump.\<close>

definition train ::
  "train_env \<Rightarrow> wrapper \<Rightarrow> string \<Rightarrow> cv \<Rightarrow> (error + estimator) \<times> wrapper \<times> effect list" where
  "train env self method cv =
     (let valid_methods = [''LinearSVC'', ''LogisticRegression'', ''xgboost'',
                           ''NearestCentroid'', ''NearestNeighbor''] in
      if method \<in> set [''ensemble-stacking'', ''MLPClassifier''] then
        (Inl (WrongParameter (''method='' @ method @
           '' is implemented but not production ready. It was disabled for now.'')), self, [])
      else if method \<notin> set valid_methods then
        (Inl (WrongParameter (''method='' @ method @ '' is not supported'')), self, [])
      else if cv \<noteq> None \<and> method \<in> set [''NearestNeighbor'', ''NearestCentroid''] then
        (Inl (WrongParameter (''Cross validation (cv='' @ (case cv of None \<Rightarrow> ''None'' | Some c \<Rightarrow> c)
           @ '') not supported with '' @ method)), self, [])
      else if cv \<notin> set [None, Some ''fast'', Some ''full''] then
        (Inl (WrongParameter ''cv''), self, [])
      else
        (case build_estimator env method cv of
           Inl e \<Rightarrow> (Inl e, self, [])
         | Inr cm \<Rightarrow>
             (case estimator_fit env cm of
                Some e \<Rightarrow> (Inl e, self, [SetupModel, FitModel cm])
              | None \<Rightarrow>
                  (Inr cm, self\<lparr>mid := Some (new_mid env), cmod := Some cm\<rparr>,
                   [SetupModel, FitModel cm, DumpModel cm, DumpPars method]))))"

section \<open>A concrete instance of the collaborators\<close>

text \<open>Rows with one feature: the Euclidean distance of two rows is the absolute value of
  their difference. \<open>nearest T x\<close> is the distance of \<open>x\<close> to its nearest row of \<open>T\<close> and
  the position of that row, the first one among equals, as a brute force search finds it.
  \<open>line_sklearn\<close> validates a matrix as scikit-learn does in that it refuses a matrix
  without rows.\<close>

fun nearest :: "real list \<Rightarrow> real \<Rightarrow> real \<times> int" where
  "nearest [] x = (0, 0)"
| "nearest [t] x = (\<bar>x - t\<bar>, 0)"
| "nearest (t # ts) x =
     (case nearest ts x of (d, i) \<Rightarrow> if \<bar>x - t\<bar> \<le> d then (\<bar>x - t\<bar>, 0) else (d, i + 1))"

definition line_sklearn :: "real sklearn" where
  "line_sklearn =
     \<lparr>check_array = (\<lambda>X. if X = [] then Inl (ValueError ''Found array with 0 sample(s)'') else Inr X),
      nn_kneighbors = (\<lambda>T. batch_of (\<lambda>x. Inr (nearest T x))),
      metric_distance = (\<lambda>m x c. \<bar>x - c\<bar>)\<rparr>"

section \<open>Boolean masks and the index partition\<close>

lemma bool_index_Nil [simp]: "bool_index [] m = []" "bool_index a [] = []"
  by (simp_all add: bool_index_def)

lemma bool_index_Cons [simp]:
  "bool_index (x # a) (b # m) = (if b then x # bool_index a m else bool_index a m)"
  by (simp add: bool_index_def)

lemma bool_index_append:
  "length a = length m \<Longrightarrow> bool_index (a @ a') (m @ m') = bool_index a m @ bool_index a' m'"
  by (simp add: bool_index_def)



lemma bool_index_upt:
  "bool_index (map f [0..<length m]) m = map f (filter (\<lambda>i. m ! i) [0..<length m])"
proof (induction m rule: rev_induct)
  case Nil
  show ?case by simp
next
  case (snoc b m)
  have eq: "filter (\<lambda>i. (m @ [b]) ! i) [0..<length m] = filter (\<lambda>i. m ! i) [0..<length m]"
    by (rule filter_cong) (simp_all add: nth_append)
  show ?case
    using snoc.IH by (simp add: bool_index_append eq)
qed

lemma bool_index_py_range:
  "bool_index (py_range (int (length y))) (map P y)
     = filter (\<lambda>i. P (y ! nat i)) (py_range (int (length y)))"
proof -
  have "bool_index (map int [0..<length (map P y)]) (map P y)
          = map int (filter (\<lambda>i. map P y ! i) [0..<length (map P y)])"
    by (rule bool_index_upt)
  also have "filter (\<lambda>i. map P y ! i) [0..<length (map P y)] = filter (\<lambda>i. P (y ! i)) [0..<length y]"
    by (rule filter_cong) simp_all
  finally show ?thesis
    by (simp add: py_range_def filter_map comp_def)
qed

lemma unzip_relevant_py_range:
  "unzip_relevant (py_range (int (length y))) y
     = Inr (filter (\<lambda>i. y ! nat i > 0.5) (py_range (int (length y))),
            filter (\<lambda>i. \<not> y ! nat i > 0.5) (py_range (int (length y))))"
proof -
  let ?R = "py_range (int (length y))"
  have a: "bool_index ?R (map (\<lambda>v. v > 0.5) y) = filter (\<lambda>i. y ! nat i > 0.5) ?R"
    by (rule bool_index_py_range)
  have "bool_index ?R (map (\<lambda>v. \<not> v > 0.5) y) = filter (\<lambda>i. \<not> y ! nat i > 0.5) ?R"
    by (rule bool_index_py_range)
  then have b: "bool_index ?R (map Not (map (\<lambda>v. v > 0.5) y)) = filter (\<lambda>i. \<not> y ! nat i > 0.5) ?R"
    by (simp only: map_map comp_def)
  have len: "length (map (\<lambda>v. v > 0.5) y) = length ?R"
    by (simp only: py_range_def length_map length_upt nat_int diff_zero)
  show ?thesis
    unfolding unzip_relevant_def Let_def by (simp only: a b len not_True_eq_False simp_thms if_False)
qed

lemma fit_indices:
  assumes "check_array sk X = Inr X'" "length y = length X'"
  shows "index_p (snd (fit sk self X y)) = filter (\<lambda>i. y ! nat i > 0.5) (py_range (int (length y)))"
    and "index_n (snd (fit sk self X y)) = filter (\<lambda>i. \<not> y ! nat i > 0.5) (py_range (int (length y)))"
  using assms unzip_relevant_py_range[of y]
  by (simp_all add: fit_def Let_def split: sum.splits)

text \<open>
  Claim C7. \<^verbatim>\<open>fit\<close> partitions the index range of the label vector, in order and
  without loss: for a matrix that validation accepts and a label vector \<open>y\<close> of its length
  \<open>n\<close>, \<^verbatim>\<open>_index_p\<close> holds the indices whose label is above 0.5 and \<^verbatim>\<open>_index_n\<close> the
  others, both in increasing order; the two are disjoint and together they are all of
  \<open>0..n-1\<close>, so that every index is in exactly one of them. For binary labels these are
  the indices with \<open>y[i] = 1\<close> and those with \<open>y[i] = 0\<close>.
\<close>

theorem fit_partitions_indices:
  assumes "check_array sk X = Inr X'" and "length y = length X'"
  shows "index_p (snd (fit sk self X y)) = filter (\<lambda>i. y ! nat i > 0.5) (py_range (int (length y)))
       \<and> index_n (snd (fit sk self X y)) = filter (\<lambda>i. \<not> y ! nat i > 0.5) (py_range (int (length y)))
       \<and> sorted_wrt (<) (index_p (snd (fit sk self X y)))
       \<and> sorted_wrt (<) (index_n (snd (fit sk self X y)))
       \<and> set (index_p (snd (fit sk self X y))) \<inter> set (index_n (snd (fit sk self X y))) = {}
       \<and> set (index_p (snd (fit sk self X y))) \<union> set (index_n (snd (fit sk self X y)))
             = {0..<int (length y)}
       \<and> (set y \<subseteq> {0, 1} \<longrightarrow>
            index_p (snd (fit sk self X y)) = filter (\<lambda>i. y ! nat i = 1) (py_range (int (length y)))
          \<and> index_n (snd (fit sk self X y)) = filter (\<lambda>i. y ! nat i = 0) (py_range (int (length y))))"
proof -
  let ?R = "py_range (int (length y))"
  let ?P = "\<lambda>i. y ! nat i > 0.5"
  have p: "index_p (snd (fit sk self X y)) = filter ?P ?R"
    and n: "index_n (snd (fit sk self X y)) = filter (\<lambda>i. \<not> ?P i) ?R"
    using fit_indices[OF assms] by simp_all
  have sorted: "sorted_wrt (<) ?R"
    by (simp add: py_range_def sorted_wrt_map sorted_wrt_upt)
  have setR: "set ?R = {0..<int (length y)}"
    by (simp add: py_range_def image_int_atLeastLessThan)
  have bin: "filter ?P ?R = filter (\<lambda>i. y ! nat i = 1) ?R
           \<and> filter (\<lambda>i. \<not> ?P i) ?R = filter (\<lambda>i. y ! nat i = 0) ?R" if "set y \<subseteq> {0, 1}"
  proof -
    have "(?P i \<longleftrightarrow> y ! nat i = 1) \<and> (\<not> ?P i \<longleftrightarrow> y ! nat i = 0)" if "i \<in> set ?R" for i
    proof -
      from that have "nat i < length y" by (auto simp: py_range_def)
      then have "y ! nat i \<in> set y" by simp
      with \<open>set y \<subseteq> {0, 1}\<close> have "y ! nat i = 0 \<or> y ! nat i = 1" by auto
      then show ?thesis by auto
    qed
    then show ?thesis
      by (intro conjI filter_cong refl) blast+
  qed
  show ?thesis
    unfolding p n using sorted setR bin
    by (auto simp: sorted_wrt_filter)
qed

theorem fit_partitions_indices_witness:
  "check_array line_sklearn [3, 4, 5] = Inr [3, 4, 5]
   \<and> length [1, 0, 1 :: real] = length [3, 4, 5 :: real]
   \<and> set [1, 0, 1 :: real] \<subseteq> {0, 1}
   \<and> index_p (snd (fit line_sklearn
         \<lparr>mod_p = None, mod_n = None, index_p = [], index_n = [], ranking = ''supervised''\<rparr>
         [3, 4, 5] [1, 0, 1])) = [0, 2]
   \<and> index_n (snd (fit line_sklearn
         \<lparr>mod_p = None, mod_n = None, index_p = [], index_n = [], ranking = ''supervised''\<rparr>
         [3, 4, 5] [1, 0, 1])) = [1]"
proof -
  have c: "check_array line_sklearn [3, 4, 5] = Inr [3, 4, 5]"
    by (simp add: line_sklearn_def)
  have l: "length [1, 0, 1 :: real] = length [3, 4, 5 :: real]" by simp
  have r: "py_range 3 = [0, 1, 2]"
    by (simp add: py_range_def upt_rec)
  show ?thesis
    using fit_partitions_indices[OF c l,
        of "\<lparr>mod_p = None, mod_n = None, index_p = [], index_n = [], ranking = ''supervised''\<rparr>"] c
    by (simp add: r)
qed

section \<open>Chunking a row-wise query\<close>

lemma batch_of_append:
  "batch_of q (xs @ ys) =
     (case batch_of q xs of
        Inl e \<Rightarrow> Inl e
      | Inr (ds, js) \<Rightarrow>
          (case batch_of q ys of
             Inl e \<Rightarrow> Inl e
           | Inr (ds', js') \<Rightarrow> Inr (ds @ ds', js @ js')))"
  by (induction xs) (auto split: sum.splits prod.splits)

lemma batch_of_length:
  "batch_of q xs = Inr (ds, js) \<Longrightarrow> length ds = length xs \<and> length js = length xs"
  by (induction xs arbitrary: ds js) (auto split: sum.splits prod.splits)

lemma batch_of_nth:
  "batch_of q xs = Inr (ds, js) \<Longrightarrow> i < length xs \<Longrightarrow> q (xs ! i) = Inr (ds ! i, js ! i)"
proof (induction xs arbitrary: ds js i)
  case Nil
  then show ?case by simp
next
  case (Cons x xs)
  then show ?case
    by (cases i) (auto split: sum.splits prod.splits)
qed

lemma py_slice_chunk:
  assumes "0 < b"
  shows "py_slice X (int k * int b) (min ((int k + 1) * int b) (int (length X)))
           = take b (drop (k * b) X)"
proof -
  have lo: "int k * int b = int (k * b)" by simp
  have "(int k + 1) * int b = int (k * b + b)" by (simp add: algebra_simps)
  then have hi: "min ((int k + 1) * int b) (int (length X)) = int (min (k * b + b) (length X))"
    by (simp only: of_nat_min)
  show ?thesis
  proof (cases "k * b \<le> length X")
    case True
    then have "py_slice X (int (k * b)) (int (min (k * b + b) (length X)))
                 = take (min (k * b + b) (length X) - k * b) (drop (k * b) X)"
      unfolding py_slice_def Let_def
      by (simp add: min_def nat_diff_distrib' del: of_nat_mult of_nat_add)
    also have "\<dots> = take b (drop (k * b) X)"
      using True by (simp add: min_def)
    finally show ?thesis by (simp only: lo hi)
  next
    case False
    then have "py_slice X (int (k * b)) (int (min (k * b + b) (length X))) = []"
      unfolding py_slice_def Let_def
      by (simp add: min_def del: of_nat_mult of_nat_add)
    with False show ?thesis by (simp only: lo hi) simp
  qed
qed

lemma concat_chunks:
  "concat (map (\<lambda>k. take b (drop (k * b) X)) [0..<m]) = take (m * b) X"
proof (induction m)
  case 0
  show ?case by simp
next
  case (Suc m)
  have "take (m * b) X @ take b (drop (m * b) X) = take (m * b + b) X"
    by (simp add: take_add)
  with Suc show ?case by (simp add: add.commute)
qed

lemma chunk_loop_batch:
  assumes "\<forall>k\<in>set ks. func (py_slice X (k * B) (min ((k + 1) * B) (int (length X))))
                         = batch_of q (py_slice X (k * B) (min ((k + 1) * B) (int (length X))))"
  shows "(case chunk_loop func X B ks (da, ia) of
            Inl e \<Rightarrow> Inl e
          | Inr (da', ia') \<Rightarrow> Inr (concat da', concat ia', length da', length ia'))
       = (case batch_of q (concat (map (\<lambda>k. py_slice X (k * B) (min ((k + 1) * B) (int (length X)))) ks)) of
            Inl e \<Rightarrow> Inl e
          | Inr (ds, js) \<Rightarrow>
              Inr (concat da @ ds, concat ia @ js, length da + length ks, length ia + length ks))"
  using assms
proof (induction ks arbitrary: da ia)
  case Nil
  show ?case by simp
next
  case (Cons k ks)
  let ?sl = "py_slice X (k * B) (min ((k + 1) * B) (int (length X)))"
  have f: "func ?sl = batch_of q ?sl" using Cons.prems by simp
  show ?case
  proof (cases "batch_of q ?sl")
    case (Inl e)
    then show ?thesis using f by (simp add: batch_of_append Let_def)
  next
    case (Inr r)
    obtain dk ik where r: "r = (dk, ik)" by (cases r)
    have IH: "(case chunk_loop func X B ks (da @ [dk], ia @ [ik]) of
            Inl e \<Rightarrow> Inl e
          | Inr (da', ia') \<Rightarrow> Inr (concat da', concat ia', length da', length ia'))
       = (case batch_of q (concat (map (\<lambda>k. py_slice X (k * B) (min ((k + 1) * B) (int (length X)))) ks)) of
            Inl e \<Rightarrow> Inl e
          | Inr (ds, js) \<Rightarrow>
              Inr (concat (da @ [dk]) @ ds, concat (ia @ [ik]) @ js,
                   length (da @ [dk]) + length ks, length (ia @ [ik]) + length ks))"
      using Cons.prems by (intro Cons.IH) simp
    show ?thesis
      using f Inr r IH
      by (simp add: batch_of_append Let_def split: sum.splits prod.splits)
  qed
qed

lemma n_chunks_nat:
  assumes "0 < b"
  shows "int n div int b + (if int n mod int b \<noteq> 0 then 1 else 0)
           = int (n div b + (if n mod b \<noteq> 0 then 1 else 0))"
proof -
  have d: "int n div int b = int (n div b)" by (simp add: zdiv_int)
  have m: "int n mod int b = int (n mod b)" by (simp add: zmod_int)
  show ?thesis
    by (simp only: d m) (simp del: of_nat_div of_nat_mod)
qed

lemma n_chunks_cover:
  assumes "0 < (b::nat)"
  shows "n \<le> (n div b + (if n mod b \<noteq> 0 then 1 else 0)) * b"
proof -
  define d where "d = n div b * b"
  have n: "n = d + n mod b" by (simp add: d_def)
  have lt: "n mod b < b" using assms by simp
  show ?thesis
  proof (cases "n mod b = 0")
    case True
    with n show ?thesis by (simp add: d_def)
  next
    case False
    have "(n div b + 1) * b = d + b" by (simp add: d_def algebra_simps)
    with False n lt show ?thesis by simp
  qed
qed

lemma n_chunks_start:
  assumes "0 < (b::nat)" and "k < n div b + (if n mod b \<noteq> 0 then 1 else 0)"
  shows "k * b < n"
proof (cases "n mod b = 0")
  case True
  with assms have "k < n div b" by simp
  then have "Suc k * b \<le> n div b * b" by (intro mult_le_mono1) simp
  also have "\<dots> \<le> n" by simp
  finally show ?thesis using assms(1) by simp
next
  case False
  with assms have "k \<le> n div b" by simp
  then have "k * b \<le> n div b * b" by (rule mult_le_mono1)
  moreover have "n div b * b + n mod b = n" by simp
  ultimately show ?thesis using False by linarith
qed

lemma chunk_kneighbors_row_wise:
  assumes func: "\<forall>Xb. Xb \<noteq> [] \<longrightarrow> func Xb = batch_of q Xb"
    and X: "X \<noteq> []" and B: "1 \<le> B"
  shows "chunk_kneighbors func X B = batch_of q X"
proof -
  define b where "b = nat B"
  define m where "m = length X div b + (if length X mod b \<noteq> 0 then 1 else 0)"
  have b: "0 < b" "B = int b" using B by (simp_all add: b_def)
  have "nat (int (length X) div int b + (if int (length X) mod int b \<noteq> 0 then 1 else 0)) = m"
    by (simp only: n_chunks_nat[OF b(1)] m_def nat_int)
  then have range: "py_range (int (length X) div B + (if int (length X) mod B \<noteq> 0 then 1 else 0))
                 = map int [0..<m]"
    by (simp only: py_range_def b(2))
  have sl: "py_slice X (int k * B) (min ((int k + 1) * B) (int (length X))) = take b (drop (k * b) X)" for k
    unfolding b(2) by (rule py_slice_chunk[OF b(1)])
  have m_pos: "0 < m"
  proof (rule ccontr)
    assume "\<not> 0 < m"
    then have "m = 0" by simp
    with n_chunks_cover[OF b(1), of "length X"] have "length X = 0" by (simp add: m_def)
    with X show False by simp
  qed
  have nonempty: "take b (drop (k * b) X) \<noteq> []" if "k < m" for k
    using n_chunks_start[OF b(1), of k "length X"] that b(1) by (simp add: m_def)
  have agree: "\<forall>k\<in>set (map int [0..<m]).
      func (py_slice X (k * B) (min ((k + 1) * B) (int (length X))))
        = batch_of q (py_slice X (k * B) (min ((k + 1) * B) (int (length X))))"
    using nonempty func by (auto simp: sl)
  have cover: "concat (map (\<lambda>k. py_slice X (k * B) (min ((k + 1) * B) (int (length X)))) (map int [0..<m])) = X"
    using n_chunks_cover[OF b(1), of "length X"]
    by (simp add: comp_def sl concat_chunks m_def)
  have loop: "(case chunk_loop func X B (map int [0..<m]) ([], []) of
            Inl e \<Rightarrow> Inl e
          | Inr (da', ia') \<Rightarrow> Inr (concat da', concat ia', length da', length ia'))
       = (case batch_of q X of
            Inl e \<Rightarrow> Inl e
          | Inr (ds, js) \<Rightarrow> Inr (ds, js, m, m))"
    using chunk_loop_batch[OF agree, of "[]" "[]"]
    by (simp only: cover) (simp split: sum.splits prod.splits)
  have B0: "B \<noteq> 0" using B by simp
  show ?thesis
  proof (cases "chunk_loop func X B (map int [0..<m]) ([], [])")
    case (Inl e)
    with loop have "batch_of q X = Inl e" by (simp split: sum.splits prod.splits)
    with Inl show ?thesis
      unfolding chunk_kneighbors_def Let_def by (simp only: range B0 if_False) simp
  next
    case (Inr r)
    obtain da ia where r: "r = (da, ia)" by (cases r)
    from loop Inr r obtain ds js where
      res: "batch_of q X = Inr (ds, js)" "concat da = ds" "concat ia = js" "length da = m" "length ia = m"
      by (auto split: sum.splits prod.splits)
    from res(4,5) m_pos have "da \<noteq> []" "ia \<noteq> []" by auto
    with Inr r res show ?thesis
      unfolding chunk_kneighbors_def Let_def
      by (simp only: range B0 if_False) (simp add: np_concatenate_def)
  qed
qed

lemma chunk_kneighbors_no_rows:
  assumes "1 \<le> B"
  shows "chunk_kneighbors func [] B = Inl (ValueError ''need at least one array to concatenate'')"
  using assms by (simp add: chunk_kneighbors_def py_range_def np_concatenate_def)

lemma chunk_kneighbors_InrD:
  assumes "chunk_kneighbors func X B = Inr r"
  shows "1 \<le> B \<and> X \<noteq> []"
proof (rule ccontr)
  assume neg: "\<not> (1 \<le> B \<and> X \<noteq> [])"
  have B0: "B \<noteq> 0" using assms by (auto simp: chunk_kneighbors_def)
  have "int (length X) div B + (if int (length X) mod B \<noteq> 0 then 1 else 0) \<le> 0"
  proof (cases "1 \<le> B")
    case True
    with neg show ?thesis by simp
  next
    case False
    with B0 have Bneg: "B < 0" by simp
    show ?thesis
    proof (cases "X = []")
      case True
      then show ?thesis by simp
    next
      case False
      then have "0 < int (length X)" by simp
      with Bneg have "int (length X) div B < 0" by (simp add: neg_imp_zdiv_neg_iff)
      then show ?thesis by simp
    qed
  qed
  then have "py_range (int (length X) div B + (if int (length X) mod B \<noteq> 0 then 1 else 0)) = []"
    by (simp add: py_range_def)
  with B0 have "chunk_kneighbors func X B = Inl (ValueError ''need at least one array to concatenate'')"
    unfolding chunk_kneighbors_def Let_def by (simp add: np_concatenate_def)
  with assms show False by simp
qed

section \<open>Training sets without a positive label\<close>

lemma bool_index_no_match: "\<forall>l\<in>set y. \<not> P l \<Longrightarrow> bool_index a (map P y) = []"
  by (auto simp: bool_index_def filter_empty_conv dest!: set_zip_rightD)

text \<open>
  Claim C4. A training set without a positive label is refused and no index is fitted:
  when no label of \<open>y\<close> is above 0.5 (for binary labels: no label is 1), \<^verbatim>\<open>fit\<close> raises,
  and it leaves both \<^verbatim>\<open>_mod_p\<close> and \<^verbatim>\<open>_mod_n\<close> as they were; for a matrix that validation
  accepts and a label vector of its length, the exception is the \<^verbatim>\<open>ValueError\<close> of line
  252, which the specification calls \<open>InvalidTrainingSet\<close>.
\<close>

theorem fit_without_positive_label_fails:
  assumes "\<forall>l\<in>set y. l \<le> 0.5"
  shows "fst (fit sk self X y) \<noteq> None
       \<and> mod_p (snd (fit sk self X y)) = mod_p self
       \<and> mod_n (snd (fit sk self X y)) = mod_n self
       \<and> (\<forall>X'. check_array sk X = Inr X' \<and> length y = length X' \<longrightarrow>
             fst (fit sk self X y)
               = Some (ValueError ''Training sets with no positive labels are not supported!''))"
proof -
  have "\<forall>l\<in>set y. \<not> l > 0.5" using assms by auto
  then have none: "bool_index a (map (\<lambda>v. v > 0.5) y) = []" for a :: "int list"
    by (rule bool_index_no_match)
  have unzip: "unzip_relevant a y = Inl IndexError
             \<or> (\<exists>ids_n. unzip_relevant a y = Inr ([], ids_n))" for a
    unfolding unzip_relevant_def Let_def by (simp only: none) simp
  have len: "length (py_range (int n)) = n" for n by (simp add: py_range_def)
  show ?thesis
  proof (cases "check_array sk X")
    case (Inl e)
    then show ?thesis by (simp add: fit_def)
  next
    case (Inr X')
    from unzip[of "py_range (int (length X'))"] show ?thesis
    proof
      assume e: "unzip_relevant (py_range (int (length X'))) y = Inl IndexError"
      then have "length y \<noteq> length X'"
        by (auto simp: unzip_relevant_def Let_def len split: if_splits)
      with Inr e show ?thesis by (simp add: fit_def)
    next
      assume "\<exists>ids_n. unzip_relevant (py_range (int (length X'))) y = Inr ([], ids_n)"
      then obtain ids_n where "unzip_relevant (py_range (int (length X'))) y = Inr ([], ids_n)" ..
      with Inr show ?thesis by (simp add: fit_def)
    qed
  qed
qed

theorem fit_without_positive_label_fails_witness:
  "fst (fit line_sklearn
      \<lparr>mod_p = None, mod_n = None, index_p = [], index_n = [], ranking = ''supervised''\<rparr>
      [3, 4] [0, 0])
     = Some (ValueError ''Training sets with no positive labels are not supported!'')
   \<and> mod_p (snd (fit line_sklearn
      \<lparr>mod_p = None, mod_n = None, index_p = [], index_n = [], ranking = ''supervised''\<rparr>
      [3, 4] [0, 0])) = None
   \<and> mod_n (snd (fit line_sklearn
      \<lparr>mod_p = None, mod_n = None, index_p = [], index_n = [], ranking = ''supervised''\<rparr>
      [3, 4] [0, 0])) = None"
proof -
  have h: "\<forall>l\<in>set [0, 0 :: real]. l \<le> 0.5" by simp
  have c: "check_array line_sklearn [3, 4] = Inr [3, 4] \<and> length [0, 0 :: real] = length [3, 4 :: real]"
    by (simp add: line_sklearn_def)
  show ?thesis
    using fit_without_positive_label_fails[OF h, of line_sklearn
        "\<lparr>mod_p = None, mod_n = None, index_p = [], index_n = [], ranking = ''supervised''\<rparr>"
        "[3, 4]"] c
    by simp
qed

section \<open>Cross validation and the neighbor methods\<close>

text \<open>
  Claim C9. \<^verbatim>\<open>train\<close> with a \<^verbatim>\<open>cv\<close> other than \<^verbatim>\<open>None\<close> and the method
  \<^verbatim>\<open>'NearestNeighbor'\<close> or \<^verbatim>\<open>'NearestCentroid'\<close> raises \<^verbatim>\<open>WrongParameter\<close> (the
  specification's \<open>InvalidParameter\<close>) before anything is built, fitted or written: the
  wrapper is unchanged and no effect has taken place.
\<close>

theorem train_rejects_cv_with_neighbor_methods:
  assumes "cv = Some c"
    and "method = ''NearestNeighbor'' \<or> method = ''NearestCentroid''"
  shows "train env self method cv
           = (Inl (WrongParameter (''Cross validation (cv='' @ c @ '') not supported with '' @ method)),
              self, [])"
  using assms by (auto simp: train_def)

theorem train_rejects_cv_with_neighbor_methods_witness:
  "train \<lparr>have_freediscovery_extra = True, have_xgboost = True, new_mid = ''m1'',
           estimator_fit = (\<lambda>_. None)\<rparr>
         \<lparr>mid = None, cmod = None\<rparr> ''NearestNeighbor'' (Some ''fast'')
     = (Inl (WrongParameter ''Cross validation (cv=fast) not supported with NearestNeighbor''),
        \<lparr>mid = None, cmod = None\<rparr>, [])"
  using train_rejects_cv_with_neighbor_methods[of "Some ''fast''" "''fast''" "''NearestNeighbor''"
      "\<lparr>have_freediscovery_extra = True, have_xgboost = True, new_mid = ''m1'',
           estimator_fit = (\<lambda>_. None)\<rparr>" "\<lparr>mid = None, cmod = None\<rparr>"]
  by simp

section \<open>The distance to the nearest centroid\<close>

text \<open>
  Claim C8. \<^verbatim>\<open>decision_function\<close> of a fitted centroid ranker returns, for a query
  matrix that validation accepts, one entry for each row, the minimum over the class
  centroids of the distance from the row to the centroid under the metric of the
  classifier; before the centroids exist it raises \<^verbatim>\<open>NotFittedError\<close>. A fitted
  classifier has at least one centroid.
\<close>

theorem decision_function_nearest_centroid:
  "(centroids self = None \<longrightarrow> decision_function sk self X = Inl NotFittedError)
   \<and> (\<forall>C X'. centroids self = Some C \<and> C \<noteq> [] \<and> check_array sk X = Inr X' \<longrightarrow>
         (\<exists>ds. decision_function sk self X = Inr ds \<and> length ds = length X'
            \<and> (\<forall>i<length X'.
                  ds ! i = Min (set (map (\<lambda>c. metric_distance sk (metric self) (X' ! i) c) C)))))"
proof -
  have "np_min_axis1 (length C) (pairwise_distances sk X' C m)
          = Inr (map (\<lambda>x. Min (set (map (\<lambda>c. metric_distance sk m x c) C))) X')"
    if "C \<noteq> []" for C X' m
    using that by (simp add: np_min_axis1_def pairwise_distances_def comp_def)
  then show ?thesis
    by (simp add: decision_function_def)
qed

theorem decision_function_nearest_centroid_witness:
  "decision_function line_sklearn \<lparr>centroids = None, metric = ''euclidean''\<rparr> [3, 8]
     = Inl NotFittedError
   \<and> decision_function line_sklearn \<lparr>centroids = Some [0, 10], metric = ''euclidean''\<rparr> [3, 8]
     = Inr [3, 2]"
  using decision_function_nearest_centroid[of "\<lparr>centroids = None, metric = ''euclidean''\<rparr>"
      line_sklearn "[3, 8]"]
    decision_function_nearest_centroid[of "\<lparr>centroids = Some [0, 10], metric = ''euclidean''\<rparr>"
      line_sklearn "[3, 8]"]
  by (simp add: line_sklearn_def decision_function_def np_min_axis1_def pairwise_distances_def)

section \<open>The structure of a query\<close>

lemma mod_kneighbors_row_wise:
  assumes "row_wise sk q"
  shows "\<forall>Xb. Xb \<noteq> [] \<longrightarrow>
           mod_kneighbors sk m Xb
             = batch_of (case m of None \<Rightarrow> (\<lambda>x. Inl NotFittedError) | Some T \<Rightarrow> q T) Xb"
proof (intro allI impI)
  fix Xb :: "'a list"
  assume "Xb \<noteq> []"
  then obtain x xs where Xb: "Xb = x # xs" by (cases Xb) auto
  show "mod_kneighbors sk m Xb
          = batch_of (case m of None \<Rightarrow> (\<lambda>x. Inl NotFittedError) | Some T \<Rightarrow> q T) Xb"
  proof (cases m)
    case None
    then show ?thesis by (simp add: mod_kneighbors_def Xb)
  next
    case (Some T)
    with assms \<open>Xb \<noteq> []\<close> show ?thesis by (simp add: mod_kneighbors_def row_wise_def)
  qed
qed

lemma chunk_mod_kneighbors:
  assumes "row_wise sk q" and "X \<noteq> []" and "1 \<le> B"
  shows "chunk_kneighbors (mod_kneighbors sk m) X B = mod_kneighbors sk m X"
  using chunk_kneighbors_row_wise[OF mod_kneighbors_row_wise[OF assms(1), of m] assms(2,3)]
    mod_kneighbors_row_wise[OF assms(1), of m] assms(2)
  by simp

lemma chunk_mod_kneighbors_shape:
  assumes "row_wise sk q" and "chunk_kneighbors (mod_kneighbors sk m) X B = Inr (ds, js)"
  shows "length ds = length X \<and> length js = length X \<and> X \<noteq> [] \<and> 1 \<le> B"
proof -
  from chunk_kneighbors_InrD[OF assms(2)] have B: "1 \<le> B" and X: "X \<noteq> []" by simp_all
  from chunk_kneighbors_row_wise[OF mod_kneighbors_row_wise[OF assms(1), of m] X B] assms(2)
  have "batch_of (case m of None \<Rightarrow> (\<lambda>x. Inl NotFittedError) | Some T \<Rightarrow> q T) X = Inr (ds, js)"
    by simp
  from batch_of_length[OF this] B X show ?thesis by simp
qed

lemma np_take_length: "np_take a idx = Inr vs \<Longrightarrow> length vs = length idx"
  by (induction idx arbitrary: vs) (auto split: sum.splits)

lemma np_take_nth:
  "np_take a idx = Inr vs \<Longrightarrow> j < length idx \<Longrightarrow> np_get a (idx ! j) = Inr (vs ! j)"
proof (induction idx arbitrary: vs j)
  case Nil
  then show ?case by simp
next
  case (Cons i idx)
  then show ?case by (cases j) (auto split: sum.splits)
qed

lemma kneighbors_InrD:
  assumes "kneighbors sk self X B = Inr (score, ind, m)"
  shows "\<exists>X' Dp Lp.
           check_array sk X = Inr X'
         \<and> chunk_kneighbors (mod_kneighbors sk (mod_p self)) X' B = Inr (Dp, Lp)
         \<and> np_take (index_p self) Lp = Inr (ind_p m)
         \<and> dist_p m = map (\<lambda>d. d / 2) Dp
         \<and> (ranking self = ''supervised'' \<or> ranking self = ''unsupervised'')
         \<and> (mod_n self = None \<longrightarrow>
               ind = ind_p m \<and> dist_n m = None \<and> ind_n m = None
             \<and> score = ranking_score (dist_p m) None)
         \<and> (mod_n self \<noteq> None \<longrightarrow>
              (\<exists>Dn Ln i_n.
                 chunk_kneighbors (mod_kneighbors sk (mod_n self)) X' B = Inr (Dn, Ln)
               \<and> np_take (index_n self) Ln = Inr i_n
               \<and> ind_n m = Some i_n
               \<and> dist_n m = Some (map (\<lambda>d. d / 2) Dn)
               \<and> (ranking self = ''supervised'' \<longrightarrow>
                     ind = where_le (dist_p m) (map (\<lambda>d. d / 2) Dn) (ind_p m) i_n
                   \<and> score = ranking_score (dist_p m) (dist_n m))
               \<and> (ranking self \<noteq> ''supervised'' \<longrightarrow>
                     ind = ind_p m \<and> score = ranking_score (dist_p m) None)))"
  using assms unfolding kneighbors_def Let_def
  by (auto split: sum.splits prod.splits if_splits)

section \<open>The fusion of the two distances\<close>

lemma ranking_score_nth_Some:
  assumes "length d_n = length d_p" and "j < length d_p"
  shows "ranking_score d_p (Some d_n) ! j
           = (if 1 - d_p ! j > 1 - d_n ! j then ((1 - d_p ! j) + 1) / 2 else (- 1 - (1 - d_n ! j)) / 2)"
  using assms by (simp add: ranking_score_def)

lemma ranking_score_length: "length d_n = length d_p \<Longrightarrow> length (ranking_score d_p (Some d_n)) = length d_p"
  by (simp add: ranking_score_def)

lemma where_le_nth:
  assumes "length D_n = length D_p" "length a = length D_p" "length b = length D_p" "j < length D_p"
  shows "where_le D_p D_n a b ! j = (if D_p ! j \<le> D_n ! j then a ! j else b ! j)"
  using assms by (simp add: where_le_def)

lemma where_le_length:
  "length D_n = length D_p \<Longrightarrow> length a = length D_p \<Longrightarrow> length b = length D_p
    \<Longrightarrow> length (where_le D_p D_n a b) = length D_p"
  by (simp add: where_le_def)

text \<open>
  Claim C1. In supervised mode with both indices fitted, for a query that returns: with
  \<open>D_p\<close> and \<open>D_n\<close> the halved distances reported in \<^verbatim>\<open>md\<close> and \<open>S_p = 1 - D_p\<close>,
  \<open>S_n = 1 - D_n\<close>, every row has the score \<open>(S_p + 1)/2\<close> when \<open>S_p > S_n\<close> and
  \<open>(-1 - S_n)/2\<close> otherwise, so that equal distances give the negative branch, and the
  winning index \<^verbatim>\<open>ind_p\<close> when \<open>D_p \<le> D_n\<close> and \<^verbatim>\<open>ind_n\<close> otherwise. There is one score
  and one winning index for each row of the validated query matrix.
\<close>

theorem kneighbors_supervised_fusion:
  assumes "row_wise sk q"
    and "ranking self = ''supervised''"
    and "mod_n self = Some T_n"
    and "kneighbors sk self X B = Inr (score, ind, m)"
  shows "\<exists>D_n i_n.
           dist_n m = Some D_n \<and> ind_n m = Some i_n
         \<and> length (dist_p m) = length score \<and> length D_n = length score
         \<and> length (ind_p m) = length score \<and> length i_n = length score
         \<and> length ind = length score
         \<and> (\<forall>X'. check_array sk X = Inr X' \<longrightarrow> length score = length X')
         \<and> (\<forall>j<length score.
               score ! j = (if 1 - dist_p m ! j > 1 - D_n ! j
                            then ((1 - dist_p m ! j) + 1) / 2
                            else (- 1 - (1 - D_n ! j)) / 2)
             \<and> (dist_p m ! j = D_n ! j \<longrightarrow> score ! j = (- 1 - (1 - D_n ! j)) / 2)
             \<and> ind ! j = (if dist_p m ! j \<le> D_n ! j then ind_p m ! j else i_n ! j))"
proof -
  from kneighbors_InrD[OF assms(4)] assms(2,3) obtain X' Dp Lp Dn Ln i_n where
    X': "check_array sk X = Inr X'"
    and p: "chunk_kneighbors (mod_kneighbors sk (mod_p self)) X' B = Inr (Dp, Lp)"
    and ip: "np_take (index_p self) Lp = Inr (ind_p m)"
    and dp: "dist_p m = map (\<lambda>d. d / 2) Dp"
    and n: "chunk_kneighbors (mod_kneighbors sk (mod_n self)) X' B = Inr (Dn, Ln)"
    and "in": "np_take (index_n self) Ln = Inr i_n"
    and m: "ind_n m = Some i_n" "dist_n m = Some (map (\<lambda>d. d / 2) Dn)"
    and ind: "ind = where_le (dist_p m) (map (\<lambda>d. d / 2) Dn) (ind_p m) i_n"
    and score: "score = ranking_score (dist_p m) (dist_n m)"
    by auto
  let ?D_n = "map (\<lambda>d. d / 2) Dn"
  from chunk_mod_kneighbors_shape[OF assms(1) p] have lp: "length Dp = length X'" "length Lp = length X'"
    by simp_all
  from chunk_mod_kneighbors_shape[OF assms(1) n] have ln: "length Dn = length X'" "length Ln = length X'"
    by simp_all
  have l1: "length (dist_p m) = length X'" using lp dp by simp
  have l2: "length ?D_n = length (dist_p m)" using ln l1 by simp
  have l3: "length (ind_p m) = length (dist_p m)" using np_take_length[OF ip] lp l1 by simp
  have l4: "length i_n = length (dist_p m)" using np_take_length[OF "in"] ln l1 by simp
  have ls: "length score = length (dist_p m)"
    unfolding score m using l2 by (rule ranking_score_length)
  have li: "length ind = length (dist_p m)"
    unfolding ind using l2 l3 l4 by (rule where_le_length)
  have rows: "score ! j = (if 1 - dist_p m ! j > 1 - ?D_n ! j
                            then ((1 - dist_p m ! j) + 1) / 2
                            else (- 1 - (1 - ?D_n ! j)) / 2)
             \<and> (dist_p m ! j = ?D_n ! j \<longrightarrow> score ! j = (- 1 - (1 - ?D_n ! j)) / 2)
             \<and> ind ! j = (if dist_p m ! j \<le> ?D_n ! j then ind_p m ! j else i_n ! j)"
    if "j < length score" for j
  proof -
    from that ls have j: "j < length (dist_p m)" by simp
    have s: "score ! j = (if 1 - dist_p m ! j > 1 - ?D_n ! j
                            then ((1 - dist_p m ! j) + 1) / 2
                            else (- 1 - (1 - ?D_n ! j)) / 2)"
      unfolding score m using l2 j by (rule ranking_score_nth_Some)
    have i: "ind ! j = (if dist_p m ! j \<le> ?D_n ! j then ind_p m ! j else i_n ! j)"
      unfolding ind using l2 l3 l4 j by (rule where_le_nth)
    from s i show ?thesis by simp
  qed
  show ?thesis
    apply (rule exI[of _ ?D_n])
    apply (rule exI[of _ i_n])
    using m l1 l2 l3 l4 ls li X' rows by simp
qed

section \<open>Queries on the concrete instance\<close>

lemma line_row_wise: "row_wise line_sklearn (\<lambda>T x. Inr (nearest T x))"
  by (simp add: row_wise_def line_sklearn_def)

lemma py_range_1: "py_range 1 = [0]"
  by (simp add: py_range_def)

lemma py_range_2: "py_range 2 = [0, 1]"
  by (simp add: py_range_def upt_rec)

lemma kneighbors_line_both:
  "kneighbors line_sklearn
       \<lparr>mod_p = Some [1], mod_n = Some [- 1], index_p = [0], index_n = [1],
          ranking = ''supervised''\<rparr> [0.8, 0] 5000
     = Inr ([0.95, - 0.75], [0, 0],
            \<lparr>dist_p = [0.1, 0.5], ind_p = [0, 0], ind_n = Some [1, 1], dist_n = Some [0.9, 0.5]\<rparr>)"
  by (simp add: kneighbors_def chunk_kneighbors_def py_range_1 py_slice_def mod_kneighbors_def
      line_sklearn_def np_concatenate_def np_get_def ranking_score_def where_le_def Let_def)

theorem kneighbors_supervised_fusion_witness:
  "row_wise line_sklearn (\<lambda>T x. Inr (nearest T x))
   \<and> kneighbors line_sklearn
       \<lparr>mod_p = Some [1], mod_n = Some [- 1], index_p = [0], index_n = [1],
          ranking = ''supervised''\<rparr> [0.8, 0] 5000
     = Inr ([0.95, - 0.75], [0, 0],
            \<lparr>dist_p = [0.1, 0.5], ind_p = [0, 0], ind_n = Some [1, 1], dist_n = Some [0.9, 0.5]\<rparr>)"
proof -
  have s: "ranking \<lparr>mod_p = Some [1], mod_n = Some [- 1], index_p = [0], index_n = [1],
          ranking = ''supervised''\<rparr> = ''supervised''" by simp
  have n: "mod_n \<lparr>mod_p = Some [1 :: real], mod_n = Some [- 1], index_p = [0], index_n = [1],
          ranking = ''supervised''\<rparr> = Some [- 1]" by simp
  from kneighbors_supervised_fusion[OF line_row_wise s n kneighbors_line_both]
  show ?thesis
    using line_row_wise kneighbors_line_both by auto
qed

section \<open>The batch size does not change the result\<close>

lemma kneighbors_as_one_call:
  assumes "row_wise sk q" and "check_array sk X = Inr X'" and "X' \<noteq> []" and "1 \<le> B"
  shows "kneighbors sk self X B = kneighbors_one_call sk self X"
  unfolding kneighbors_def kneighbors_one_call_def
  by (simp only: assms(2) sum.case chunk_mod_kneighbors[OF assms(1,3,4)])

lemma kneighbors_no_rows:
  assumes "check_array sk X = Inr []" and "1 \<le> B"
  shows "kneighbors sk self X B = Inl (ValueError ''need at least one array to concatenate'')"
  unfolding kneighbors_def by (simp add: assms chunk_kneighbors_no_rows)

lemma kneighbors_length:
  assumes "row_wise sk q" and "check_array sk X = Inr X'"
    and "kneighbors sk self X B = Inr (score, ind, m)"
  shows "length score = length X' \<and> length ind = length X'"
proof -
  from kneighbors_InrD[OF assms(3)] assms(2) obtain Dp Lp where
    p: "chunk_kneighbors (mod_kneighbors sk (mod_p self)) X' B = Inr (Dp, Lp)"
    and ip: "np_take (index_p self) Lp = Inr (ind_p m)"
    and dp: "dist_p m = map (\<lambda>d. d / 2) Dp"
    and none: "mod_n self = None \<longrightarrow> ind = ind_p m \<and> score = ranking_score (dist_p m) None"
    and some: "mod_n self \<noteq> None \<longrightarrow>
              (\<exists>Dn Ln i_n.
                 chunk_kneighbors (mod_kneighbors sk (mod_n self)) X' B = Inr (Dn, Ln)
               \<and> np_take (index_n self) Ln = Inr i_n
               \<and> dist_n m = Some (map (\<lambda>d. d / 2) Dn)
               \<and> (ranking self = ''supervised'' \<longrightarrow>
                     ind = where_le (dist_p m) (map (\<lambda>d. d / 2) Dn) (ind_p m) i_n
                   \<and> score = ranking_score (dist_p m) (dist_n m))
               \<and> (ranking self \<noteq> ''supervised'' \<longrightarrow>
                     ind = ind_p m \<and> score = ranking_score (dist_p m) None))"
    by auto
  from chunk_mod_kneighbors_shape[OF assms(1) p]
  have lp: "length Dp = length X'" "length Lp = length X'" by simp_all
  have l1: "length (dist_p m) = length X'" using lp dp by simp
  have l3: "length (ind_p m) = length X'" using np_take_length[OF ip] lp by simp
  have un: "length (ranking_score (dist_p m) None) = length X'"
    using l1 by (simp add: ranking_score_def)
  show ?thesis
  proof (cases "mod_n self")
    case None
    with none un l3 show ?thesis by simp
  next
    case (Some T)
    with some obtain Dn Ln i_n where
      n: "chunk_kneighbors (mod_kneighbors sk (mod_n self)) X' B = Inr (Dn, Ln)"
      and "in": "np_take (index_n self) Ln = Inr i_n"
      and dn: "dist_n m = Some (map (\<lambda>d. d / 2) Dn)"
      and sup: "ranking self = ''supervised'' \<longrightarrow>
                     ind = where_le (dist_p m) (map (\<lambda>d. d / 2) Dn) (ind_p m) i_n
                   \<and> score = ranking_score (dist_p m) (dist_n m)"
      and uns: "ranking self \<noteq> ''supervised'' \<longrightarrow>
                     ind = ind_p m \<and> score = ranking_score (dist_p m) None"
      by blast
    from chunk_mod_kneighbors_shape[OF assms(1) n]
    have ln: "length Dn = length X'" "length Ln = length X'" by simp_all
    have l2: "length (map (\<lambda>d. d / 2) Dn) = length (dist_p m)" using ln l1 by simp
    have l4: "length i_n = length (dist_p m)" using np_take_length[OF "in"] ln l1 by simp
    show ?thesis
    proof (cases "ranking self = ''supervised''")
      case True
      with sup dn ranking_score_length[OF l2] where_le_length[OF l2 _ l4, of "ind_p m"] l1 l3
      show ?thesis by simp
    next
      case False
      with uns un l3 show ?thesis by simp
    qed
  qed
qed

lemma kneighbors_row_positive:
  assumes "row_wise sk q" and "check_array sk X = Inr X'"
    and "kneighbors sk self X B = Inr (score, ind, m)"
    and "mod_p self = Some T" and "i < length X'"
  shows "\<exists>d l. q T (X' ! i) = Inr (d, l) \<and> dist_p m ! i = d / 2
              \<and> np_get (index_p self) l = Inr (ind_p m ! i)"
proof -
  from kneighbors_InrD[OF assms(3)] assms(2) obtain Dp Lp where
    p: "chunk_kneighbors (mod_kneighbors sk (mod_p self)) X' B = Inr (Dp, Lp)"
    and ip: "np_take (index_p self) Lp = Inr (ind_p m)"
    and dp: "dist_p m = map (\<lambda>d. d / 2) Dp"
    by auto
  from chunk_mod_kneighbors_shape[OF assms(1) p]
  have lp: "length Dp = length X'" "length Lp = length X'" and X': "X' \<noteq> []" and B: "1 \<le> B"
    by simp_all
  from chunk_kneighbors_row_wise[OF mod_kneighbors_row_wise[OF assms(1), of "mod_p self"] X' B] p assms(4)
  have "batch_of (q T) X' = Inr (Dp, Lp)" by simp
  from batch_of_nth[OF this assms(5)] have "q T (X' ! i) = Inr (Dp ! i, Lp ! i)" .
  moreover have "dist_p m ! i = Dp ! i / 2" using dp lp assms(5) by simp
  moreover have "np_get (index_p self) (Lp ! i) = Inr (ind_p m ! i)"
    using np_take_nth[OF ip, of i] lp assms(5) by simp
  ultimately show ?thesis by blast
qed

text \<open>
  Claim C3. The batch size changes nothing but the size of the batches: when the
  1-nearest-neighbor query of scikit-learn answers each row of a batch on its own, then
  for all batch sizes \<open>B1, B2 \<ge> 1\<close> the two calls of \<^verbatim>\<open>kneighbors\<close> return the same
  (the same scores, winning indices and \<^verbatim>\<open>md\<close>, or the same exception); when the
  validated matrix has a row, this is what the query run in one call on the whole matrix
  returns; and the rows keep their places: there is one score and one winning index for
  each row, and entry \<open>i\<close> of the positive distances and indices is the answer of the
  positive index to row \<open>i\<close>.
\<close>

theorem kneighbors_batch_size_invariant:
  assumes "row_wise sk q" and "1 \<le> B1" and "1 \<le> B2"
  shows "kneighbors sk self X B1 = kneighbors sk self X B2
       \<and> ((\<forall>X'. check_array sk X = Inr X' \<longrightarrow> X' \<noteq> []) \<longrightarrow>
             kneighbors sk self X B1 = kneighbors_one_call sk self X)
       \<and> (\<forall>X' score ind m.
             check_array sk X = Inr X' \<and> kneighbors sk self X B1 = Inr (score, ind, m) \<longrightarrow>
               length score = length X' \<and> length ind = length X'
             \<and> (\<forall>T i. mod_p self = Some T \<and> i < length X' \<longrightarrow>
                   (\<exists>d l. q T (X' ! i) = Inr (d, l) \<and> dist_p m ! i = d / 2
                        \<and> np_get (index_p self) l = Inr (ind_p m ! i))))"
proof (cases "check_array sk X")
  case (Inl e)
  then show ?thesis by (simp add: kneighbors_def kneighbors_one_call_def)
next
  case (Inr X')
  have rows: "length score = length X' \<and> length ind = length X'
             \<and> (\<forall>T i. mod_p self = Some T \<and> i < length X' \<longrightarrow>
                   (\<exists>d l. q T (X' ! i) = Inr (d, l) \<and> dist_p m ! i = d / 2
                        \<and> np_get (index_p self) l = Inr (ind_p m ! i)))"
    if "kneighbors sk self X B1 = Inr (score, ind, m)" for score ind m
    using kneighbors_length[OF assms(1) Inr that]
      kneighbors_row_positive[OF assms(1) Inr that]
    by blast
  show ?thesis
  proof (cases "X' = []")
    case True
    with Inr assms(2,3) kneighbors_no_rows[of sk X] show ?thesis by simp
  next
    case False
    have "kneighbors sk self X B1 = kneighbors_one_call sk self X"
      and "kneighbors sk self X B2 = kneighbors_one_call sk self X"
      using kneighbors_as_one_call[OF assms(1) Inr False] assms(2,3) by simp_all
    with Inr rows show ?thesis by simp
  qed
qed

lemma kneighbors_line_both_1:
  "kneighbors line_sklearn
       \<lparr>mod_p = Some [1], mod_n = Some [- 1], index_p = [0], index_n = [1],
          ranking = ''supervised''\<rparr> [0.8, 0] 1
     = Inr ([0.95, - 0.75], [0, 0],
            \<lparr>dist_p = [0.1, 0.5], ind_p = [0, 0], ind_n = Some [1, 1], dist_n = Some [0.9, 0.5]\<rparr>)"
  by (simp add: kneighbors_def chunk_kneighbors_def py_range_2 py_slice_def mod_kneighbors_def
      line_sklearn_def np_concatenate_def np_get_def ranking_score_def where_le_def Let_def)

theorem kneighbors_batch_size_invariant_witness:
  "row_wise line_sklearn (\<lambda>T x. Inr (nearest T x)) \<and> (1 :: int) \<le> 1 \<and> (1 :: int) \<le> 5000
   \<and> kneighbors line_sklearn
       \<lparr>mod_p = Some [1], mod_n = Some [- 1], index_p = [0], index_n = [1],
          ranking = ''supervised''\<rparr> [0.8, 0] 1
     = Inr ([0.95, - 0.75], [0, 0],
            \<lparr>dist_p = [0.1, 0.5], ind_p = [0, 0], ind_n = Some [1, 1], dist_n = Some [0.9, 0.5]\<rparr>)
   \<and> kneighbors line_sklearn
       \<lparr>mod_p = Some [1], mod_n = Some [- 1], index_p = [0], index_n = [1],
          ranking = ''supervised''\<rparr> [0.8, 0] 5000
     = Inr ([0.95, - 0.75], [0, 0],
            \<lparr>dist_p = [0.1, 0.5], ind_p = [0, 0], ind_n = Some [1, 1], dist_n = Some [0.9, 0.5]\<rparr>)
   \<and> kneighbors_one_call line_sklearn
       \<lparr>mod_p = Some [1], mod_n = Some [- 1], index_p = [0], index_n = [1],
          ranking = ''supervised''\<rparr> [0.8, 0]
     = Inr ([0.95, - 0.75], [0, 0],
            \<lparr>dist_p = [0.1, 0.5], ind_p = [0, 0], ind_n = Some [1, 1], dist_n = Some [0.9, 0.5]\<rparr>)"
proof -
  have b1: "(1 :: int) \<le> 1" and b2: "(1 :: int) \<le> 5000" by simp_all
  have v: "\<forall>X'. check_array line_sklearn [0.8, 0] = Inr X' \<longrightarrow> X' \<noteq> []"
    by (simp add: line_sklearn_def)
  from kneighbors_batch_size_invariant[OF line_row_wise b1 b2,
      of "\<lparr>mod_p = Some [1], mod_n = Some [- 1], index_p = [0], index_n = [1],
          ranking = ''supervised''\<rparr>" "[0.8, 0]"] v
  have "kneighbors line_sklearn
       \<lparr>mod_p = Some [1], mod_n = Some [- 1], index_p = [0], index_n = [1],
          ranking = ''supervised''\<rparr> [0.8, 0] 1
     = kneighbors line_sklearn
       \<lparr>mod_p = Some [1], mod_n = Some [- 1], index_p = [0], index_n = [1],
          ranking = ''supervised''\<rparr> [0.8, 0] 5000"
    and "kneighbors line_sklearn
       \<lparr>mod_p = Some [1], mod_n = Some [- 1], index_p = [0], index_n = [1],
          ranking = ''supervised''\<rparr> [0.8, 0] 1
     = kneighbors_one_call line_sklearn
       \<lparr>mod_p = Some [1], mod_n = Some [- 1], index_p = [0], index_n = [1],
          ranking = ''supervised''\<rparr> [0.8, 0]"
    by blast+
  with kneighbors_line_both_1 line_row_wise b1 b2 show ?thesis by simp
qed

section \<open>The range of the scores\<close>

lemma ranking_score_range:
  assumes "\<forall>d\<in>set d_p. 0 \<le> d \<and> d \<le> 4"
    and "\<forall>D. d_n = Some D \<longrightarrow> (\<forall>d\<in>set D. 0 \<le> d \<and> d \<le> 4)"
  shows "\<forall>s\<in>set (ranking_score d_p d_n). - 1 \<le> s \<and> s \<le> 1"
proof (cases d_n)
  case None
  with assms(1) show ?thesis by (auto simp: ranking_score_def)
next
  case (Some D)
  have "- 1 \<le> (if 1 - a > 1 - b then (1 - a) + 1 else - 1 - (1 - b)) / 2
      \<and> (if 1 - a > 1 - b then (1 - a) + 1 else - 1 - (1 - b)) / 2 \<le> 1"
    if "(a, b) \<in> set (zip d_p D)" for a b
  proof -
    from that have "a \<in> set d_p" "b \<in> set D" by (auto dest: set_zip_leftD set_zip_rightD)
    with assms Some have "0 \<le> a" "a \<le> 4" "0 \<le> b" "b \<le> 4" by auto
    then show ?thesis by auto
  qed
  then show ?thesis
    unfolding ranking_score_def Let_def Some
    by (auto simp: zip_map_map)
qed

text \<open>
  Claim C2, as the code has it. The score is in \<open>[-1, 1]\<close> when the distances are those
  of rows of norm one, not for every input: whenever a query returns and every halved
  distance it reports in \<^verbatim>\<open>md\<close> (\<^verbatim>\<open>dist_p\<close>, and \<^verbatim>\<open>dist_n\<close> when present) lies in
  \<open>[0, 4]\<close>, every score lies in \<open>[-1, 1]\<close>. Rows of norm one have Euclidean distances in
  \<open>[0, 2]\<close>, so their halved distances lie in \<open>[0, 1]\<close>.
\<close>

theorem kneighbors_score_range:
  assumes "kneighbors sk self X B = Inr (score, ind, m)"
    and "\<forall>d\<in>set (dist_p m). 0 \<le> d \<and> d \<le> 4"
    and "\<forall>D_n. dist_n m = Some D_n \<longrightarrow> (\<forall>d\<in>set D_n. 0 \<le> d \<and> d \<le> 4)"
  shows "\<forall>s\<in>set score. - 1 \<le> s \<and> s \<le> 1"
proof -
  from kneighbors_InrD[OF assms(1)]
  have "score = ranking_score (dist_p m) None \<or> score = ranking_score (dist_p m) (dist_n m)"
    by (cases "mod_n self = None"; cases "ranking self = ''supervised''") auto
  then show ?thesis
  proof
    assume "score = ranking_score (dist_p m) None"
    with ranking_score_range[OF assms(2), of None] show ?thesis by simp
  next
    assume "score = ranking_score (dist_p m) (dist_n m)"
    with ranking_score_range[OF assms(2), of "dist_n m"] assms(3) show ?thesis by simp
  qed
qed

theorem kneighbors_score_range_witness:
  "kneighbors line_sklearn
       \<lparr>mod_p = Some [1], mod_n = Some [- 1], index_p = [0], index_n = [1],
          ranking = ''supervised''\<rparr> [0.8, 0] 5000
     = Inr ([0.95, - 0.75], [0, 0],
            \<lparr>dist_p = [0.1, 0.5], ind_p = [0, 0], ind_n = Some [1, 1], dist_n = Some [0.9, 0.5]\<rparr>)
   \<and> - 1 \<le> (0.95 :: real) \<and> (0.95 :: real) \<le> 1 \<and> - 1 \<le> (- 0.75 :: real) \<and> (- 0.75 :: real) \<le> 1"
proof -
  have p: "\<forall>d\<in>set (dist_p \<lparr>dist_p = [0.1, 0.5], ind_p = [0, 0], ind_n = Some [1, 1],
              dist_n = Some [0.9, 0.5]\<rparr>). 0 \<le> d \<and> d \<le> 4"
    by simp
  have n: "\<forall>D_n. dist_n \<lparr>dist_p = [0.1, 0.5], ind_p = [0, 0], ind_n = Some [1, 1],
              dist_n = Some [0.9, 0.5]\<rparr> = Some D_n \<longrightarrow> (\<forall>d\<in>set D_n. 0 \<le> d \<and> d \<le> 4)"
    by auto
  from kneighbors_score_range[OF kneighbors_line_both p n]
  show ?thesis using kneighbors_line_both by simp
qed

text \<open>
  The claim C2 as the specification states it, for any input, fails on distances of rows
  that do not have norm one: a ranker fitted on the rows \<open>0\<close> (positive) and \<open>100\<close>
  (negative) gives the query row \<open>20\<close> the halved distances 10 and 40 and the score
  \<open>-4\<close>.
\<close>

theorem kneighbors_score_out_of_range:
  "fit line_sklearn
       \<lparr>mod_p = None, mod_n = None, index_p = [], index_n = [], ranking = ''supervised''\<rparr>
       [0, 100] [1, 0]
     = (None, \<lparr>mod_p = Some [0], mod_n = Some [100], index_p = [0], index_n = [1],
                ranking = ''supervised''\<rparr>)
   \<and> kneighbors line_sklearn
       \<lparr>mod_p = Some [0], mod_n = Some [100], index_p = [0], index_n = [1],
          ranking = ''supervised''\<rparr> [20] 5000
     = Inr ([- 4], [0],
            \<lparr>dist_p = [10], ind_p = [0], ind_n = Some [1], dist_n = Some [40]\<rparr>)
   \<and> \<not> (- 1 \<le> (- 4 :: real))"
  by (simp add: fit_def unzip_relevant_def py_range_2 np_get_def
      kneighbors_def chunk_kneighbors_def py_range_1 py_slice_def mod_kneighbors_def
      line_sklearn_def np_concatenate_def ranking_score_def where_le_def Let_def)

section \<open>A ranker without a negative index\<close>

lemma kneighbors_no_negative_index:
  assumes "mod_n self = None"
  shows "kneighbors sk self X B =
     (case check_array sk X of
        Inl e \<Rightarrow> Inl e
      | Inr X' \<Rightarrow>
          (case chunk_kneighbors (mod_kneighbors sk (mod_p self)) X' B of
             Inl e \<Rightarrow> Inl e
           | Inr (Dp, Lp) \<Rightarrow>
               (case np_take (index_p self) Lp of
                  Inl e \<Rightarrow> Inl e
                | Inr i_p \<Rightarrow>
                    if ranking self = ''supervised'' \<or> ranking self = ''unsupervised''
                    then Inr (map (\<lambda>d. ((1 - d / 2) + 1) / 2) Dp, i_p,
                              \<lparr>dist_p = map (\<lambda>d. d / 2) Dp, ind_p = i_p,
                                 ind_n = None, dist_n = None\<rparr>)
                    else Inl (ValueError []))))"
  using assms
  by (simp add: kneighbors_def Let_def ranking_score_def comp_def
      split: sum.splits prod.splits)

lemma batch_of_total:
  assumes "\<forall>x\<in>set xs. \<exists>d l. q x = Inr (d, l) \<and> P l"
  shows "\<exists>ds ls. batch_of q xs = Inr (ds, ls) \<and> (\<forall>l\<in>set ls. P l)"
  using assms
proof (induction xs)
  case Nil
  show ?case by simp
next
  case (Cons x xs)
  then obtain d l where x: "q x = Inr (d, l)" "P l" by auto
  from Cons obtain ds ls where xs: "batch_of q xs = Inr (ds, ls)" "\<forall>l\<in>set ls. P l" by auto
  from x xs show ?case by simp
qed

lemma np_take_total:
  assumes "\<forall>i\<in>set idx. 0 \<le> i \<and> i < int (length a)"
  shows "\<exists>vs. np_take a idx = Inr vs"
  using assms by (induction idx) (auto simp: np_get_def)

lemma kneighbors_positive_only_succeeds:
  assumes "row_wise sk q" and "mod_n self = None" and "mod_p self = Some T"
    and "ranking self = ''supervised'' \<or> ranking self = ''unsupervised''"
    and "check_array sk X = Inr X'" and "X' \<noteq> []" and "1 \<le> B"
    and "\<forall>x\<in>set X'. \<exists>d l. q T x = Inr (d, l) \<and> 0 \<le> l \<and> l < int (length (index_p self))"
  shows "\<exists>score ind m. kneighbors sk self X B = Inr (score, ind, m)"
proof -
  from batch_of_total[of X' "q T" "\<lambda>l. 0 \<le> l \<and> l < int (length (index_p self))", OF assms(8)]
  obtain Dp Lp where b: "batch_of (q T) X' = Inr (Dp, Lp)"
    and r: "\<forall>l\<in>set Lp. 0 \<le> l \<and> l < int (length (index_p self))" by blast
  from np_take_total[OF r] obtain i_p where t: "np_take (index_p self) Lp = Inr i_p" ..
  have "chunk_kneighbors (mod_kneighbors sk (mod_p self)) X' B = Inr (Dp, Lp)"
    using chunk_kneighbors_row_wise[OF mod_kneighbors_row_wise[OF assms(1), of "mod_p self"] assms(6,7)]
      b assms(3) by simp
  with t assms(4,5) show ?thesis
    unfolding kneighbors_no_negative_index[OF assms(2)] by auto
qed

text \<open>
  Claim C6, as the code has it. A ranker configured \<^verbatim>\<open>'supervised'\<close> whose negative index
  is absent does not fail on that account: a query returns exactly what it returns for the
  same ranker configured \<^verbatim>\<open>'unsupervised'\<close>; when it returns, every score is the
  positive-only \<open>(S_p + 1)/2\<close> with \<open>S_p = 1 - D_p\<close>, the winning index is \<^verbatim>\<open>ind_p\<close>, and
  \<^verbatim>\<open>md\<close> has no negative entries; and it does return when the validated matrix has a row,
  the batch size is at least one and the positive index answers every row with a position
  inside \<^verbatim>\<open>_index_p\<close>.
\<close>

theorem supervised_without_negative_index:
  assumes "ranking self = ''supervised''" and "mod_n self = None"
  shows "kneighbors sk self X B = kneighbors sk (self\<lparr>ranking := ''unsupervised''\<rparr>) X B
       \<and> (\<forall>score ind m. kneighbors sk self X B = Inr (score, ind, m) \<longrightarrow>
             score = map (\<lambda>d. ((1 - d) + 1) / 2) (dist_p m) \<and> ind = ind_p m
           \<and> ind_n m = None \<and> dist_n m = None)
       \<and> (\<forall>q T X'. row_wise sk q \<and> mod_p self = Some T \<and> check_array sk X = Inr X'
              \<and> X' \<noteq> [] \<and> 1 \<le> B
              \<and> (\<forall>x\<in>set X'. \<exists>d l. q T x = Inr (d, l) \<and> 0 \<le> l \<and> l < int (length (index_p self)))
            \<longrightarrow> (\<exists>score ind m. kneighbors sk self X B = Inr (score, ind, m)))"
proof -
  have same: "kneighbors sk self X B = kneighbors sk (self\<lparr>ranking := ''unsupervised''\<rparr>) X B"
    using kneighbors_no_negative_index[of self sk X B]
      kneighbors_no_negative_index[of "self\<lparr>ranking := ''unsupervised''\<rparr>" sk X B] assms
    by (simp split: sum.splits prod.splits)
  have formula: "score = map (\<lambda>d. ((1 - d) + 1) / 2) (dist_p m) \<and> ind = ind_p m
           \<and> ind_n m = None \<and> dist_n m = None"
    if k: "kneighbors sk self X B = Inr (score, ind, m)" for score ind m
  proof -
    from kneighbors_InrD[OF k] assms(2)
    have "ind = ind_p m" "dist_n m = None" "ind_n m = None"
      and "score = ranking_score (dist_p m) None" by auto
    then show ?thesis by (simp add: ranking_score_def comp_def)
  qed
  have returns: "\<exists>score ind m. kneighbors sk self X B = Inr (score, ind, m)"
    if "row_wise sk q \<and> mod_p self = Some T \<and> check_array sk X = Inr X'
              \<and> X' \<noteq> [] \<and> 1 \<le> B
              \<and> (\<forall>x\<in>set X'. \<exists>d l. q T x = Inr (d, l) \<and> 0 \<le> l \<and> l < int (length (index_p self)))"
    for q T X'
    using that assms
    by (intro kneighbors_positive_only_succeeds[of sk q self T X X' B]) simp_all
  from same formula returns show ?thesis by blast
qed

lemma kneighbors_line_positive_only:
  "kneighbors line_sklearn
       \<lparr>mod_p = Some [1], mod_n = None, index_p = [0], index_n = [], ranking = ''supervised''\<rparr>
       [- 1] 5000
     = Inr ([0.5], [0], \<lparr>dist_p = [1], ind_p = [0], ind_n = None, dist_n = None\<rparr>)"
  by (simp add: kneighbors_def chunk_kneighbors_def py_range_1 py_slice_def mod_kneighbors_def
      line_sklearn_def np_concatenate_def np_get_def ranking_score_def Let_def)

theorem supervised_without_negative_index_witness:
  "kneighbors line_sklearn
       \<lparr>mod_p = Some [1], mod_n = None, index_p = [0], index_n = [], ranking = ''supervised''\<rparr>
       [- 1] 5000
     = Inr ([0.5], [0], \<lparr>dist_p = [1], ind_p = [0], ind_n = None, dist_n = None\<rparr>)
   \<and> kneighbors line_sklearn
       \<lparr>mod_p = Some [1], mod_n = None, index_p = [0], index_n = [], ranking = ''unsupervised''\<rparr>
       [- 1] 5000
     = Inr ([0.5], [0], \<lparr>dist_p = [1], ind_p = [0], ind_n = None, dist_n = None\<rparr>)"
proof -
  have s: "ranking \<lparr>mod_p = Some [1 :: real], mod_n = None, index_p = [0], index_n = [],
             ranking = ''supervised''\<rparr> = ''supervised''" by simp
  have n: "mod_n \<lparr>mod_p = Some [1 :: real], mod_n = None, index_p = [0], index_n = [],
             ranking = ''supervised''\<rparr> = None" by simp
  from supervised_without_negative_index[OF s n, of line_sklearn "[- 1]" 5000]
  have "kneighbors line_sklearn
       \<lparr>mod_p = Some [1], mod_n = None, index_p = [0], index_n = [], ranking = ''supervised''\<rparr>
       [- 1] 5000
     = kneighbors line_sklearn
       \<lparr>mod_p = Some [1], mod_n = None, index_p = [0], index_n = [], ranking = ''unsupervised''\<rparr>
       [- 1] 5000"
    by simp
  with kneighbors_line_positive_only show ?thesis by simp
qed

text \<open>
  The claim C6 as the specification states it, a hard failure, fails on the ranker that
  \<^verbatim>\<open>__init__\<close> builds for \<^verbatim>\<open>'supervised'\<close> and \<^verbatim>\<open>fit\<close> fits on one positive row and
  no negative row: its query returns, with the positive-only score.
\<close>

theorem supervised_without_negatives_returns:
  "init ''supervised''
     = Inr \<lparr>mod_p = None :: real list option, mod_n = None, index_p = [], index_n = [],
            ranking = ''supervised''\<rparr>
   \<and> fit line_sklearn
       \<lparr>mod_p = None, mod_n = None, index_p = [], index_n = [], ranking = ''supervised''\<rparr>
       [1] [1]
     = (None, \<lparr>mod_p = Some [1], mod_n = None, index_p = [0], index_n = [],
                ranking = ''supervised''\<rparr>)
   \<and> kneighbors line_sklearn
       \<lparr>mod_p = Some [1], mod_n = None, index_p = [0], index_n = [], ranking = ''supervised''\<rparr>
       [- 1] 5000
     = Inr ([0.5], [0], \<lparr>dist_p = [1], ind_p = [0], ind_n = None, dist_n = None\<rparr>)"
  by (simp add: init_def fit_def unzip_relevant_def py_range_1 np_get_def
      kneighbors_def chunk_kneighbors_def py_slice_def mod_kneighbors_def
      line_sklearn_def np_concatenate_def ranking_score_def Let_def)

section \<open>Fitting a second time\<close>

text \<open>
  Claim C5 on a ranker that is fitted twice. \<^verbatim>\<open>fit\<close> with a negative row fits
  \<^verbatim>\<open>_mod_n\<close>; a second \<^verbatim>\<open>fit\<close> with positive rows only replaces \<^verbatim>\<open>_index_n\<close> by the
  empty array and leaves \<^verbatim>\<open>_mod_n\<close> fitted (the \<^verbatim>\<open>else: pass\<close> of line 255). The query
  then takes the branch of the fitted negative index and raises \<^verbatim>\<open>IndexError\<close> at
  \<^verbatim>\<open>self._index_n[idx_n_loc[:,0]]\<close>.
\<close>

theorem refit_without_negatives_query_raises:
  "fit line_sklearn
       \<lparr>mod_p = None, mod_n = None, index_p = [], index_n = [], ranking = ''supervised''\<rparr>
       [1, - 1] [1, 0]
     = (None, \<lparr>mod_p = Some [1], mod_n = Some [- 1], index_p = [0], index_n = [1],
                ranking = ''supervised''\<rparr>)
   \<and> fit line_sklearn
       \<lparr>mod_p = Some [1], mod_n = Some [- 1], index_p = [0], index_n = [1],
          ranking = ''supervised''\<rparr>
       [1] [1]
     = (None, \<lparr>mod_p = Some [1], mod_n = Some [- 1], index_p = [0], index_n = [],
                ranking = ''supervised''\<rparr>)
   \<and> kneighbors line_sklearn
       \<lparr>mod_p = Some [1], mod_n = Some [- 1], index_p = [0], index_n = [],
          ranking = ''supervised''\<rparr>
       [1] 5000
     = Inl IndexError"
  by (simp add: fit_def unzip_relevant_def py_range_1 py_range_2 np_get_def
      kneighbors_def chunk_kneighbors_def py_slice_def mod_kneighbors_def
      line_sklearn_def np_concatenate_def ranking_score_def Let_def)

section \<open>The round trip of the ids\<close>















end
